theory Spec2Isabelle
  imports Complex_Main
begin

section \<open>Strings as the cleaning script uses them\<close>

text \<open>
  Strings are byte lists. \<open>py_isspace\<close> is Python's \<open>str.isspace\<close> on the ASCII range
  (code points 9 to 13, 28 to 32); \<open>str.strip()\<close> with no argument removes such
  characters from both ends. Unicode white space beyond ASCII is outside the model.
\<close>

definition py_isspace :: "char \<Rightarrow> bool" where
  "py_isspace c = (let n = (of_char c :: nat) in (9 \<le> n \<and> n \<le> 13) \<or> (28 \<le> n \<and> n \<le> 32))"

definition py_strip :: "string \<Rightarrow> string" where
  "py_strip s = rev (dropWhile py_isspace (rev (dropWhile py_isspace s)))"

text \<open>\<open>str.lower()\<close> on ASCII letters.\<close>

definition lower_char :: "char \<Rightarrow> char" where
  "lower_char c = (let n = (of_char c :: nat) in if 65 \<le> n \<and> n \<le> 90 then char_of (n + 32) else c)"

definition lower :: "string \<Rightarrow> string" where
  "lower s = map lower_char s"

text \<open>\<open>x in s\<close> for strings: \<open>x\<close> occurs in \<open>s\<close> as a contiguous substring.\<close>

fun starts_with :: "string \<Rightarrow> string \<Rightarrow> bool" where
  "starts_with [] s = True"
| "starts_with (x # xs) [] = False"
| "starts_with (x # xs) (c # cs) = (x = c \<and> starts_with xs cs)"

fun py_in :: "string \<Rightarrow> string \<Rightarrow> bool" where
  "py_in x [] = (x = [])"
| "py_in x (c # cs) = (starts_with x (c # cs) \<or> py_in x cs)"

text \<open>\<open>.str.replace(r'[$,]', '', regex=True)\<close> and \<open>.str.replace('%', '')\<close>: every
  occurrence of one of the listed characters is removed.\<close>

definition str_remove :: "char list \<Rightarrow> string \<Rightarrow> string" where
  "str_remove cs s = filter (\<lambda>c. c \<notin> set cs) s"


section \<open>Parsing a string cell as a number\<close>

text \<open>
  \<open>pd.to_numeric(..., errors='coerce')\<close> on a string cell: an optionally signed decimal
  literal with an optional fraction and an optional exponent, surrounded by optional
  C white space, gives its value; anything else, the text \<open>nan\<close> included, gives NaN,
  which is \<open>None\<close> here. Values are exact rationals: binary rounding and the IEEE
  infinities (the texts \<open>inf\<close>, \<open>infinity\<close>) are outside the model.
\<close>

definition is_digit :: "char \<Rightarrow> bool" where
  "is_digit c = (let n = (of_char c :: nat) in 48 \<le> n \<and> n \<le> 57)"

definition digit_val :: "char \<Rightarrow> nat" where
  "digit_val c = of_char c - 48"

definition digits_val :: "string \<Rightarrow> nat" where
  "digits_val s = foldl (\<lambda>a c. 10 * a + digit_val c) 0 s"

definition all_digits :: "string \<Rightarrow> bool" where
  "all_digits s = list_all is_digit s"

definition c_isspace :: "char \<Rightarrow> bool" where
  "c_isspace c = (let n = (of_char c :: nat) in (9 \<le> n \<and> n \<le> 13) \<or> n = 32)"

definition c_strip :: "string \<Rightarrow> string" where
  "c_strip s = rev (dropWhile c_isspace (rev (dropWhile c_isspace s)))"

definition parse_unsigned :: "string \<Rightarrow> rat option" where
  "parse_unsigned s =
     (let ip = takeWhile (\<lambda>c. c \<noteq> CHR ''.'') s;
          rest = dropWhile (\<lambda>c. c \<noteq> CHR ''.'') s
      in case rest of
           [] \<Rightarrow> if ip \<noteq> [] \<and> all_digits ip then Some (of_nat (digits_val ip)) else None
         | dot # fp \<Rightarrow>
             if (ip \<noteq> [] \<or> fp \<noteq> []) \<and> all_digits ip \<and> all_digits fp
             then Some (of_nat (digits_val (ip @ fp)) / 10 ^ length fp)
             else None)"

definition parse_exponent :: "string \<Rightarrow> int option" where
  "parse_exponent s =
     (case s of
        [] \<Rightarrow> None
      | c # cs \<Rightarrow>
          if c = CHR ''-'' then (if cs \<noteq> [] \<and> all_digits cs then Some (- int (digits_val cs)) else None)
          else if c = CHR ''+'' then (if cs \<noteq> [] \<and> all_digits cs then Some (int (digits_val cs)) else None)
          else if all_digits (c # cs) then Some (int (digits_val (c # cs))) else None)"

definition scale10 :: "rat \<Rightarrow> int \<Rightarrow> rat" where
  "scale10 m k = (if 0 \<le> k then m * 10 ^ nat k else m / 10 ^ nat (- k))"

definition parse_float :: "string \<Rightarrow> rat option" where
  "parse_float s =
     (let t = c_strip s;
          neg = (t \<noteq> [] \<and> hd t = CHR ''-'');
          body = (if t \<noteq> [] \<and> (hd t = CHR ''-'' \<or> hd t = CHR ''+'') then tl t else t);
          not_e = (\<lambda>c. c \<noteq> CHR ''e'' \<and> c \<noteq> CHR ''E'');
          mant = takeWhile not_e body;
          rest = dropWhile not_e body
      in case parse_unsigned mant of
           None \<Rightarrow> None
         | Some m \<Rightarrow>
             (case rest of
                [] \<Rightarrow> Some (if neg then - m else m)
              | e # ex \<Rightarrow>
                  (case parse_exponent ex of
                     None \<Rightarrow> None
                   | Some k \<Rightarrow> Some (scale10 (if neg then - m else m) k))))"


section \<open>Columns and frames\<close>

text \<open>
  A cell of an object-dtype column as the loaders produce it: a Python string, the float
  NaN (what \<open>read_csv\<close> gives for a missing field) or \<open>None\<close> (what \<open>read_sql_query\<close>
  gives for an SQL NULL in a text column). A column carries its dtype: \<open>ObjectCol\<close> is
  dtype \<open>object\<close>, \<open>NumCol\<close> a numeric dtype with \<open>None\<close> for NaN, \<open>DatetimeCol\<close> is
  \<open>datetime64\<close> with \<open>None\<close> for NaT. A frame is the list of its named columns, in order.
\<close>

datatype pyobj = PyNone | PyNaN | PyStr string

datatype 'd series = ObjectCol "pyobj list" | NumCol "rat option list" | DatetimeCol "'d option list"

type_synonym 'd frame = "(string \<times> 'd series) list"

fun series_len :: "'d series \<Rightarrow> nat" where
  "series_len (ObjectCol xs) = length xs"
| "series_len (NumCol xs) = length xs"
| "series_len (DatetimeCol xs) = length xs"

text \<open>\<open>len(df)\<close>.\<close>

definition nrows :: "'d frame \<Rightarrow> nat" where
  "nrows df = (case df of [] \<Rightarrow> 0 | (n, s) # rest \<Rightarrow> series_len s)"

definition columns :: "'d frame \<Rightarrow> string list" where
  "columns df = map fst df"

fun is_object :: "'d series \<Rightarrow> bool" where
  "is_object (ObjectCol xs) = True"
| "is_object (NumCol xs) = False"
| "is_object (DatetimeCol xs) = False"

text \<open>\<open>df.select_dtypes(include=['object']).columns\<close>.\<close>

definition object_columns :: "'d frame \<Rightarrow> string list" where
  "object_columns df = map fst (filter (\<lambda>(n, s). is_object s) df)"

text \<open>\<open>df[col] = f(df[col])\<close> for a column name of the frame.\<close>

definition assign_col :: "string \<Rightarrow> ('d series \<Rightarrow> 'd series) \<Rightarrow> 'd frame \<Rightarrow> 'd frame" where
  "assign_col col f df = map (\<lambda>(n, s). if n = col then (n, f s) else (n, s)) df"

definition get_col :: "'d frame \<Rightarrow> string \<Rightarrow> 'd series option" where
  "get_col df col = map_of df col"



section \<open>Duplicate rows\<close>

text \<open>
  \<open>df.duplicated()\<close> marks a row that equals an earlier row, all missing values counting
  as equal to each other; \<open>.sum()\<close> counts the marks; \<open>df.drop_duplicates()\<close> keeps the
  unmarked rows.
\<close>

datatype 'd key = KNull | KStr string | KNum rat | KDate 'd

fun obj_key :: "pyobj \<Rightarrow> 'd key" where
  "obj_key PyNone = KNull"
| "obj_key PyNaN = KNull"
| "obj_key (PyStr s) = KStr s"

fun series_keys :: "'d series \<Rightarrow> 'd key list" where
  "series_keys (ObjectCol xs) = map obj_key xs"
| "series_keys (NumCol xs) = map (\<lambda>x. case x of None \<Rightarrow> KNull | Some v \<Rightarrow> KNum v) xs"
| "series_keys (DatetimeCol xs) = map (\<lambda>x. case x of None \<Rightarrow> KNull | Some v \<Rightarrow> KDate v) xs"

definition rows_of :: "'d frame \<Rightarrow> 'd key list list" where
  "rows_of df = map (\<lambda>i. map (\<lambda>(n, s). series_keys s ! i) df) [0..<nrows df]"

fun dup_mask :: "'a list \<Rightarrow> 'a list \<Rightarrow> bool list" where
  "dup_mask seen [] = []"
| "dup_mask seen (r # rs) = (r \<in> set seen) # dup_mask (r # seen) rs"

definition duplicated :: "'d frame \<Rightarrow> bool list" where
  "duplicated df = dup_mask [] (rows_of df)"

definition dup_count :: "'d frame \<Rightarrow> nat" where
  "dup_count df = length (filter id (duplicated df))"

definition keep_rows :: "bool list \<Rightarrow> 'a list \<Rightarrow> 'a list" where
  "keep_rows msk xs = map fst (filter snd (zip xs msk))"

fun series_keep :: "bool list \<Rightarrow> 'd series \<Rightarrow> 'd series" where
  "series_keep msk (ObjectCol xs) = ObjectCol (keep_rows msk xs)"
| "series_keep msk (NumCol xs) = NumCol (keep_rows msk xs)"
| "series_keep msk (DatetimeCol xs) = DatetimeCol (keep_rows msk xs)"

definition drop_duplicates :: "'d frame \<Rightarrow> 'd frame" where
  "drop_duplicates df = map (\<lambda>(n, s). (n, series_keep (map Not (duplicated df)) s)) df"


section \<open>Column normalizers\<close>

text \<open>
  What the script leaves to its libraries and what no claim here depends on: how a
  string or a number reads as a date, what number a date converts to, on which columns
  \<open>pd.to_datetime\<close> raises although \<open>errors='coerce'\<close> is set, and the bytes
  \<open>df.to_csv(path, index=False)\<close> writes for a frame.
\<close>

record 'd library =
  parse_date :: "string \<Rightarrow> 'd option"
  date_of_num :: "rat \<Rightarrow> 'd option"
  num_of_date :: "'d option \<Rightarrow> rat option"
  raises :: "'d series \<Rightarrow> bool"
  to_csv :: "'d frame \<Rightarrow> string"

text \<open>\<open>str(x)\<close> of an object cell, as \<open>.astype(str)\<close> applies it.\<close>

fun astype_str :: "pyobj \<Rightarrow> string" where
  "astype_str PyNone = ''None''"
| "astype_str PyNaN = ''nan''"
| "astype_str (PyStr s) = s"

fun to_numeric_obj :: "pyobj \<Rightarrow> rat option" where
  "to_numeric_obj (PyStr s) = parse_float s"
| "to_numeric_obj PyNaN = None"
| "to_numeric_obj PyNone = None"

text \<open>\<open>pd.to_numeric(col, errors='coerce')\<close>.\<close>

fun to_numeric :: "'d library \<Rightarrow> 'd series \<Rightarrow> 'd series" where
  "to_numeric L (ObjectCol xs) = NumCol (map to_numeric_obj xs)"
| "to_numeric L (NumCol xs) = NumCol xs"
| "to_numeric L (DatetimeCol xs) = NumCol (map (num_of_date L) xs)"

text \<open>The exceptions the script can meet.\<close>

datatype error =
  FileNotFoundError | ParserError | KeyError | BadZipFile | DatabaseError | OperationalError

text \<open>\<open>pd.to_datetime(col, errors='coerce')\<close>.\<close>

definition to_datetime :: "'d library \<Rightarrow> 'd series \<Rightarrow> error + 'd series" where
  "to_datetime L s =
     (if raises L s then Inl ParserError
      else Inr (case s of
             ObjectCol xs \<Rightarrow>
               DatetimeCol (map (\<lambda>x. case x of PyStr t \<Rightarrow> parse_date L t | PyNaN \<Rightarrow> None | PyNone \<Rightarrow> None) xs)
           | NumCol xs \<Rightarrow>
               DatetimeCol (map (\<lambda>x. case x of None \<Rightarrow> None | Some v \<Rightarrow> date_of_num L v) xs)
           | DatetimeCol xs \<Rightarrow> DatetimeCol xs))"

text \<open>The \<open>try: ... except: print(...)\<close> around it: on an exception the column stays as it is.\<close>

definition try_to_datetime :: "'d library \<Rightarrow> 'd series \<Rightarrow> 'd series" where
  "try_to_datetime L s = (case to_datetime L s of Inl e \<Rightarrow> s | Inr s' \<Rightarrow> s')"

text \<open>The body of the monetary loop: only under \<open>dtype == 'object'\<close>, remove \<open>$\<close> and
  \<open>,\<close> from the stringified cells, then \<open>pd.to_numeric\<close>.\<close>

definition clean_money :: "'d library \<Rightarrow> 'd series \<Rightarrow> 'd series" where
  "clean_money L s =
     (case s of
        ObjectCol xs \<Rightarrow> to_numeric L (ObjectCol (map (\<lambda>x. PyStr (str_remove ''$,'' (astype_str x))) xs))
      | NumCol xs \<Rightarrow> s
      | DatetimeCol xs \<Rightarrow> s)"

text \<open>The body of the rating loop of \<open>clean_rotten_tomatoes_info\<close>.\<close>

definition clean_rating :: "'d library \<Rightarrow> 'd series \<Rightarrow> 'd series" where
  "clean_rating L s =
     (case s of
        ObjectCol xs \<Rightarrow> to_numeric L (ObjectCol (map (\<lambda>x. PyStr (str_remove ''%'' (astype_str x))) xs))
      | NumCol xs \<Rightarrow> s
      | DatetimeCol xs \<Rightarrow> s)"

text \<open>The body of the text loop: \<open>.astype(str).str.strip()\<close>, then
  \<open>.replace('nan', np.nan)\<close>. It only ever runs on columns that
  \<open>select_dtypes(include=['object'])\<close> returned.\<close>

definition clean_text_cell :: "pyobj \<Rightarrow> pyobj" where
  "clean_text_cell x =
     (let stripped = PyStr (py_strip (astype_str x))
      in if stripped = PyStr ''nan'' then PyNaN else stripped)"

definition clean_text :: "'d series \<Rightarrow> 'd series" where
  "clean_text s =
     (case s of
        ObjectCol xs \<Rightarrow> ObjectCol (map clean_text_cell xs)
      | NumCol xs \<Rightarrow> s
      | DatetimeCol xs \<Rightarrow> s)"


section \<open>The loops over classified columns\<close>

text \<open>\<open>any(x in col.lower() for x in keywords)\<close>.\<close>

definition any_keyword :: "string list \<Rightarrow> string \<Rightarrow> bool" where
  "any_keyword keywords col = list_ex (\<lambda>x. py_in x (lower col)) keywords"

text \<open>\<open>[col for col in df.columns if any(x in col.lower() for x in keywords)]\<close>.\<close>

definition keyword_columns :: "string list \<Rightarrow> 'd frame \<Rightarrow> string list" where
  "keyword_columns keywords df = filter (any_keyword keywords) (columns df)"

text \<open>\<open>for col in cols: df[col] = f(df[col])\<close>.\<close>

definition for_columns :: "string list \<Rightarrow> ('d series \<Rightarrow> 'd series) \<Rightarrow> 'd frame \<Rightarrow> 'd frame" where
  "for_columns cols f df = fold (\<lambda>col d. assign_col col f d) cols df"

text \<open>\<open>for col in text_columns: if col not in excluded: ...\<close>.\<close>

definition text_step :: "string list \<Rightarrow> string list \<Rightarrow> 'd frame \<Rightarrow> 'd frame" where
  "text_step text_columns excluded df =
     fold (\<lambda>col d. if col \<in> set excluded then d else assign_col col clean_text d) text_columns df"


section \<open>The dataset cleaners, from the loaded frame to the frame that is saved\<close>

definition clean_box_office_frame :: "'d library \<Rightarrow> 'd frame \<Rightarrow> 'd frame" where
  "clean_box_office_frame L bom_df =
     (let duplicates = dup_count bom_df;
          c0 = (if duplicates > 0 then drop_duplicates bom_df else bom_df);
          money_columns = keyword_columns [''gross'', ''revenue'', ''budget'', ''sales''] c0;
          c1 = for_columns money_columns (clean_money L) c0;
          year_columns = keyword_columns [''year''] c1;
          c2 = for_columns year_columns (to_numeric L) c1;
          text_columns = object_columns c2
      in text_step text_columns money_columns c2)"

definition clean_movie_budgets_frame :: "'d library \<Rightarrow> 'd frame \<Rightarrow> 'd frame" where
  "clean_movie_budgets_frame L budgets_df =
     (let c0 = drop_duplicates budgets_df;
          money_columns = keyword_columns [''budget'', ''gross'', ''revenue''] c0;
          c1 = for_columns money_columns (clean_money L) c0;
          date_columns = keyword_columns [''date'', ''release''] c1;
          c2 = for_columns date_columns (try_to_datetime L) c1;
          text_columns = object_columns c2
      in text_step text_columns (money_columns @ date_columns) c2)"

definition clean_tmdb_frame :: "'d library \<Rightarrow> 'd frame \<Rightarrow> 'd frame" where
  "clean_tmdb_frame L tmdb_df =
     (let c0 = drop_duplicates tmdb_df;
          numeric_columns = keyword_columns
            [''budget'', ''revenue'', ''runtime'', ''vote_average'', ''vote_count'', ''popularity''] c0;
          c1 = for_columns numeric_columns (to_numeric L) c0;
          date_columns = keyword_columns [''date'', ''release''] c1;
          c2 = for_columns date_columns (try_to_datetime L) c1;
          text_columns = object_columns c2
      in text_step text_columns date_columns c2)"

definition clean_rotten_tomatoes_info_frame :: "'d library \<Rightarrow> 'd frame \<Rightarrow> 'd frame" where
  "clean_rotten_tomatoes_info_frame L rt_info_df =
     (let c0 = drop_duplicates rt_info_df;
          rating_columns = keyword_columns [''rating'', ''score'', ''percent''] c0;
          c1 = for_columns rating_columns (clean_rating L) c0;
          year_columns = keyword_columns [''year''] c1;
          c2 = for_columns year_columns (to_numeric L) c1;
          text_columns = object_columns c2
      in text_step text_columns rating_columns c2)"

definition clean_rotten_tomatoes_reviews_frame :: "'d library \<Rightarrow> 'd frame \<Rightarrow> 'd frame" where
  "clean_rotten_tomatoes_reviews_frame L rt_reviews_df =
     (let c0 = drop_duplicates rt_reviews_df;
          rating_columns = keyword_columns [''rating'', ''score''] c0;
          c1 = for_columns rating_columns (to_numeric L) c0;
          date_columns = keyword_columns [''date''] c1;
          c2 = for_columns date_columns (try_to_datetime L) c1;
          text_columns = object_columns c2
      in text_step text_columns date_columns c2)"

text \<open>The body of the table loop of \<open>extract_and_clean_imdb_data\<close>.\<close>

definition clean_imdb_table :: "'d library \<Rightarrow> 'd frame \<Rightarrow> 'd frame" where
  "clean_imdb_table L df =
     (let c0 = drop_duplicates df;
          text_columns = object_columns c0;
          c1 = text_step text_columns [] c0
      in fold (\<lambda>col d. if col \<notin> set text_columns then assign_col col (to_numeric L) d else d)
           (columns c1) c1)"


section \<open>Files, the archive and the database\<close>

text \<open>
  The script's world: the files of \<open>Original_Data/\<close>, those of
  \<open>Original_Data/extracted/\<close>, the files of \<open>Cleaned_Data/\<close> with the bytes written,
  and whether the SQLite connection is open. A directory is its listing, in the order
  \<open>glob\<close> returns it. A source file is a table \<open>read_csv\<close> parses to a frame, a zip
  archive with its members, or something neither reads. A database file holds named
  tables; on a \<open>Broken\<close> one a \<open>SELECT ... FROM {table_name}\<close> raises (the name is
  pasted into the statement unquoted).
\<close>

datatype 'd db_table = Rows "'d frame" | Broken

datatype 'd member = Database "(string \<times> 'd db_table) list" | NotADatabase

datatype 'd source_file = Table "'d frame" | Archive "(string \<times> 'd member) list" | Unreadable

record 'd world =
  original :: "(string \<times> 'd source_file) list"
  extracted :: "(string \<times> 'd member) list"
  cleaned :: "(string \<times> string) list"
  connection_open :: bool

text \<open>Writing a file: an existing one is overwritten in place, a new one is added.\<close>

fun write_file :: "string \<Rightarrow> 'v \<Rightarrow> (string \<times> 'v) list \<Rightarrow> (string \<times> 'v) list" where
  "write_file n v [] = [(n, v)]"
| "write_file n v ((m, x) # fs) =
     (if m = n then (n, v) # fs else (m, x) # write_file n v fs)"

definition ends_with :: "string \<Rightarrow> string \<Rightarrow> bool" where
  "ends_with suffix s = starts_with (rev suffix) (rev s)"

text \<open>\<open>pd.read_csv(original_data_path / name, ...)\<close>.\<close>

definition read_csv :: "'d world \<Rightarrow> string \<Rightarrow> error + 'd frame" where
  "read_csv w name =
     (case map_of (original w) name of
        None \<Rightarrow> Inl FileNotFoundError
      | Some (Table df) \<Rightarrow> Inr df
      | Some (Archive ms) \<Rightarrow> Inl ParserError
      | Some Unreadable \<Rightarrow> Inl ParserError)"

text \<open>\<open>df.to_csv(cleaned_data_path / name, index=False)\<close>.\<close>

definition save_csv :: "'d library \<Rightarrow> string \<Rightarrow> 'd frame \<Rightarrow> 'd world \<Rightarrow> 'd world" where
  "save_csv L name df w = w\<lparr>cleaned := write_file name (to_csv L df) (cleaned w)\<rparr>"

text \<open>A cleaner as a whole: load, clean, save, return the cleaned frame. A load that
  raises ends the call with nothing written.\<close>

definition run_cleaner ::
  "'d library \<Rightarrow> string \<Rightarrow> ('d frame \<Rightarrow> 'd frame) \<Rightarrow> string \<Rightarrow> 'd world
    \<Rightarrow> (error + 'd frame) \<times> 'd world" where
  "run_cleaner L source clean output w =
     (case read_csv w source of
        Inl e \<Rightarrow> (Inl e, w)
      | Inr df \<Rightarrow> (let df_clean = clean df in (Inr df_clean, save_csv L output df_clean w)))"






text \<open>\<open>zip_ref.extractall(extract_path)\<close> and \<open>extract_path.glob('*.db')\<close>; a member
  stored under a directory of the archive is not at the top of \<open>extract_path\<close>.\<close>

definition extractall :: "(string \<times> 'd member) list \<Rightarrow> (string \<times> 'd member) list \<Rightarrow> (string \<times> 'd member) list" where
  "extractall members dir = fold (\<lambda>(n, f) d. write_file n f d) members dir"

definition glob_db :: "(string \<times> 'd member) list \<Rightarrow> (string \<times> 'd member) list" where
  "glob_db dir = filter (\<lambda>(n, f). ends_with ''.db'' n \<and> CHR ''/'' \<notin> set n) dir"

text \<open>The first loop over the tables: \<open>SELECT COUNT(*) FROM {table_name}\<close>.\<close>

fun count_loop :: "(string \<times> 'd db_table) list \<Rightarrow> error + unit" where
  "count_loop [] = Inr ()"
| "count_loop ((table_name, t) # tables) =
     (case t of Broken \<Rightarrow> Inl OperationalError | Rows df \<Rightarrow> count_loop tables)"

text \<open>The second loop: read the table, clean it, save it, record it in \<open>cleaned_tables\<close>.\<close>

fun table_loop ::
  "'d library \<Rightarrow> (string \<times> 'd db_table) list \<Rightarrow> (string \<times> 'd frame) list \<Rightarrow> 'd world
    \<Rightarrow> (error + (string \<times> 'd frame) list) \<times> 'd world" where
  "table_loop L [] cleaned_tables w = (Inr cleaned_tables, w)"
| "table_loop L ((table_name, t) # tables) cleaned_tables w =
     (case t of
        Broken \<Rightarrow> (Inl OperationalError, w)
      | Rows df \<Rightarrow>
          (let df_clean = clean_imdb_table L df;
               w' = save_csv L (''imdb_'' @ table_name @ ''_cleaned.csv'') df_clean w
           in table_loop L tables (write_file table_name df_clean cleaned_tables) w'))"

text \<open>
  \<open>extract_and_clean_imdb_data\<close>. The result \<open>Inr None\<close> is the \<open>return None\<close> of the
  missing database file; an exception leaves with the world as it is at the raise.
  \<open>sqlite3.connect\<close> opens the connection on any file; the first statement raises on a
  file that is no database.
\<close>

definition extract_and_clean_imdb_data ::
  "'d library \<Rightarrow> 'd world \<Rightarrow> (error + (string \<times> 'd frame) list option) \<times> 'd world" where
  "extract_and_clean_imdb_data L w =
     (case map_of (original w) ''im.db.zip'' of
        None \<Rightarrow> (Inl FileNotFoundError, w)
      | Some (Table df) \<Rightarrow> (Inl BadZipFile, w)
      | Some Unreadable \<Rightarrow> (Inl BadZipFile, w)
      | Some (Archive members) \<Rightarrow>
          (let w1 = w\<lparr>extracted := extractall members (extracted w)\<rparr>;
               db_files = glob_db (extracted w1)
           in case db_files of
                [] \<Rightarrow> (Inr None, w1)
              | (db_path, db) # others \<Rightarrow>
                  (let w2 = w1\<lparr>connection_open := True\<rparr>
                   in case db of
                        NotADatabase \<Rightarrow> (Inl DatabaseError, w2)
                      | Database tables \<Rightarrow>
                          (case count_loop tables of
                             Inl e \<Rightarrow> (Inl e, w2)
                           | Inr u \<Rightarrow>
                               (case table_loop L tables [] w2 of
                                  (Inl e, w3) \<Rightarrow> (Inl e, w3)
                                | (Inr cleaned_tables, w3) \<Rightarrow>
                                    (Inr (Some cleaned_tables), w3\<lparr>connection_open := False\<rparr>))))))"





section \<open>Worked examples\<close>

text \<open>A library instance for the examples: no string reads as a date, a number reads as
  the date of that number, \<open>pd.to_datetime\<close> never raises, and the bytes written for a
  frame are stood for by its header.\<close>

definition example_library :: "rat library" where
  "example_library =
     \<lparr>parse_date = (\<lambda>s. None), date_of_num = (\<lambda>v. Some v), num_of_date = (\<lambda>d. d),
      raises = (\<lambda>s. False), to_csv = (\<lambda>df. concat (map fst df))\<rparr>"



text \<open>A frame whose text column holds the word \<open>nan\<close> padded with blanks, a missing
  value and a padded name.\<close>

definition nan_example :: "rat frame" where
  "nan_example =
     [(''studio'', ObjectCol [PyStr '' nan '', PyNaN, PyStr ''BV ''])]"


text \<open>A budgets frame with a column whose name has a monetary and a date keyword, and
  one with the columns of the real file.\<close>

definition overlap_example :: "rat frame" where
  "overlap_example = [(''budget_date'', ObjectCol [PyStr ''$5'']), (''id'', NumCol [Some 1])]"

definition budgets_example :: "rat frame" where
  "budgets_example =
     [(''movie'', ObjectCol [PyStr '' Avatar '']),
      (''production_budget'', ObjectCol [PyStr ''$425,000,000'']),
      (''release_date'', ObjectCol [PyStr ''Dec 18, 2009''])]"


text \<open>Three worlds: an archive whose database has a table named with an SQL keyword,
  an archive with a sound database, and the five source files with an archive that
  holds no database file.\<close>

definition broken_db_world :: "rat world" where
  "broken_db_world =
     \<lparr>original = [(''im.db.zip'', Archive [(''im.db'', Database
          [(''movie_basics'', Rows [(''genres'', ObjectCol [PyStr ''Drama''])]),
           (''order'', Broken)])])],
      extracted = [], cleaned = [], connection_open = False\<rparr>"

definition good_db_world :: "rat world" where
  "good_db_world =
     \<lparr>original = [(''im.db.zip'', Archive [(''im.db'', Database
          [(''movie_basics'', Rows [(''genres'', ObjectCol [PyStr ''Drama''])])])])],
      extracted = [], cleaned = [], connection_open = False\<rparr>"



section \<open>The notebook builders\<close>

text \<open>
  The dictionary a builder returns, which \<open>json.dump\<close> writes and a JSON parser reads
  back as the same tree: Python \<open>None\<close> is \<open>JNull\<close>, a list is \<open>JList\<close>, a dict is
  \<open>JDict\<close> with its items in order. Text is given by its UTF-8 bytes.
\<close>

datatype json =
  JNull | JBool bool | JInt int | JString string | JList "json list" | JDict "(string \<times> json) list"

text \<open>\<open>d.get(k)\<close> on a parsed object.\<close>

fun json_get :: "json \<Rightarrow> string \<Rightarrow> json option" where
  "json_get (JDict items) k = map_of items k"
| "json_get JNull k = None"
| "json_get (JBool b) k = None"
| "json_get (JInt i) k = None"
| "json_get (JString s) k = None"
| "json_get (JList xs) k = None"

definition notebook_cells :: "json \<Rightarrow> json list" where
  "notebook_cells nb = (case json_get nb ''cells'' of Some (JList cs) \<Rightarrow> cs | _ \<Rightarrow> [])"

definition cell_has_type :: "string \<Rightarrow> json \<Rightarrow> bool" where
  "cell_has_type t c = (json_get c ''cell_type'' = Some (JString t))"

definition create_cleaning_notebook :: json where
  \<open>create_cleaning_notebook =
     JDict
      [(''cells'', JList
        [JDict
          [(''cell_type'', JString ''markdown''),
           (''metadata'', JDict []),
           (''source'', JList
            [JString ''# Movie Dataset Cleaning Pipeline\<newline>'',
             JString ''## Comprehensive Data Cleaning for EDA Project\<newline>'',
             JString ''\<newline>'',
             JString ''This notebook systematically cleans all movie datasets from the `Original_Data` folder and exports clean, analysis-ready datasets.\<newline>'',
             JString ''\<newline>'',
             JString (''### '' @ [CHR 0xF0, CHR 0x9F, CHR 0x93, CHR 0x8B]
                 @ '' Datasets to Process:\<newline>''),
             JString ''1. **Box Office Mojo** (`bom.movie_gross.csv.gz`) - Box office gross earnings\<newline>'',
             JString ''2. **TMDb Movies** (`tmdb.movies.csv.gz`) - The Movie Database metadata\<newline>'',
             JString ''3. **Movie Budgets** (`tn.movie_budgets.csv.gz`) - Production budgets and revenues\<newline>'',
             JString ''4. **Rotten Tomatoes Info** (`rt.movie_info.tsv.gz`) - Movie ratings and metadata\<newline>'',
             JString ''5. **Rotten Tomatoes Reviews** (`rt.reviews.tsv`) - Individual movie reviews\<newline>'',
             JString ''6. **IMDb Database** (`im.db.zip`) - Comprehensive movie database\<newline>'',
             JString ''\<newline>'',
             JString (''### '' @ [CHR 0xF0, CHR 0x9F, CHR 0x8E, CHR 0xAF]
                 @ '' Cleaning Objectives:\<newline>''),
             JString ''- Handle missing values appropriately\<newline>'',
             JString ''- Standardize data types and formats\<newline>'',
             JString ''- Remove duplicates\<newline>'',
             JString ''- Clean financial data (currency formatting)\<newline>'',
             JString ''- Validate and correct data inconsistencies\<newline>'',
             JString ''- Export clean datasets for analysis''])],
         JDict
          [(''cell_type'', JString ''code''),
           (''execution_count'', JNull),
           (''metadata'', JDict []),
           (''outputs'', JList []),
           (''source'', JList
            [JString ''# Import required libraries\<newline>'',
             JString ''import pandas as pd\<newline>'',
             JString ''import numpy as np\<newline>'',
             JString ''import sqlite3\<newline>'',
             JString ''import zipfile\<newline>'',
             JString ''import gzip\<newline>'',
             JString ''import warnings\<newline>'',
             JString ''from pathlib import Path\<newline>'',
             JString ''import re\<newline>'',
             JString ''\<newline>'',
             JString ''# Configure pandas for better display\<newline>'',
             JString (''pd.set_option('' @ [CHR 0x27] @ ''display.max_columns'' @ [CHR 0x27]
                 @ '', None)\<newline>''),
             JString (''pd.set_option('' @ [CHR 0x27] @ ''display.width'' @ [CHR 0x27]
                 @ '', None)\<newline>''),
             JString (''pd.set_option('' @ [CHR 0x27] @ ''display.max_rows'' @ [CHR 0x27]
                 @ '', 100)\<newline>''),
             JString (''warnings.filterwarnings('' @ [CHR 0x27] @ ''ignore'' @ [CHR 0x27]
                 @ '')\<newline>''),
             JString ''\<newline>'',
             JString ''# Create directories\<newline>'',
             JString (''Path('' @ [CHR 0x27] @ ''cleaned_data'' @ [CHR 0x27]
                 @ '').mkdir(exist_ok=True)\<newline>''),
             JString ''\<newline>'',
             JString (''print("'' @ [CHR 0xE2, CHR 0x9C, CHR 0x85]
                 @ '' Environment setup complete!")\<newline>''),
             JString (''print(f"'' @ [CHR 0xF0, CHR 0x9F, CHR 0x93, CHR 0x81]
                 @ '' Working directory: {Path.cwd()}")'')])]]),
       (''metadata'', JDict
        [(''kernelspec'', JDict
          [(''display_name'', JString ''Python 3''),
           (''language'', JString ''python''),
           (''name'', JString ''python3'')]),
         (''language_info'', JDict
          [(''codemirror_mode'', JDict
            [(''name'', JString ''ipython''),
             (''version'', JInt 3)]),
           (''file_extension'', JString ''.py''),
           (''name'', JString ''python''),
           (''nbconvert_exporter'', JString ''python''),
           (''pygments_lexer'', JString ''ipython3''),
           (''version'', JString ''3.8.0'')])]),
       (''nbformat'', JInt 4),
       (''nbformat_minor'', JInt 4)]\<close>

definition create_eda_notebook :: json where
  \<open>create_eda_notebook =
     JDict
      [(''cells'', JList
        [JDict
          [(''cell_type'', JString ''markdown''),
           (''metadata'', JDict []),
           (''source'', JList
            [JString ''# Movie Industry Exploratory Data Analysis\<newline>'',
             JString ''## Comprehensive Analysis of Movie Performance, Ratings, and Financial Data\<newline>'',
             JString ''\<newline>'',
             JString ''This notebook performs thorough exploratory data analysis on cleaned movie datasets to uncover insights about:\<newline>'',
             JString ''\<newline>'',
             JString (''### '' @ [CHR 0xF0, CHR 0x9F, CHR 0x8E, CHR 0xAF]
                 @ '' Analysis Objectives:\<newline>''),
             JString ''- **Movie Performance Trends** - Box office performance over time\<newline>'',
             JString ''- **Rating Patterns** - TMDb and Rotten Tomatoes rating distributions\<newline>'',
             JString ''- **Financial Analysis** - Budget vs revenue relationships\<newline>'',
             JString ''- **Genre Analysis** - Popular genres and their performance\<newline>'',
             JString ''- **Studio Analysis** - Top performing studios and distributors\<newline>'',
             JString ''- **Temporal Trends** - Movie industry evolution over years\<newline>'',
             JString ''\<newline>'',
             JString (''### '' @ [CHR 0xF0, CHR 0x9F, CHR 0x93, CHR 0x8B]
                 @ '' Cleaned Datasets Used:\<newline>''),
             JString ''- **TMDb Movies** (26,517 records) - Movie metadata, ratings, popularity\<newline>'',
             JString ''- **Movie Budgets** (5,782 records) - Production budgets and revenues\<newline>'',
             JString ''- **Box Office Mojo** (3,387 records) - Domestic and foreign gross earnings\<newline>'',
             JString ''- **Rotten Tomatoes** (1,560 records) - Critical ratings and movie info''])],
         JDict
          [(''cell_type'', JString ''code''),
           (''execution_count'', JNull),
           (''metadata'', JDict []),
           (''outputs'', JList []),
           (''source'', JList
            [JString ''# Import required libraries for comprehensive EDA\<newline>'',
             JString ''import pandas as pd\<newline>'',
             JString ''import numpy as np\<newline>'',
             JString ''import matplotlib.pyplot as plt\<newline>'',
             JString ''import seaborn as sns\<newline>'',
             JString ''import plotly.express as px\<newline>'',
             JString ''import plotly.graph_objects as go\<newline>'',
             JString ''from plotly.subplots import make_subplots\<newline>'',
             JString ''import warnings\<newline>'',
             JString ''from pathlib import Path\<newline>'',
             JString ''from datetime import datetime\<newline>'',
             JString ''import re\<newline>'',
             JString ''\<newline>'',
             JString ''# Configure visualization settings\<newline>'',
             JString (''plt.style.use('' @ [CHR 0x27] @ ''seaborn-v0_8'' @ [CHR 0x27]
                 @ '')\<newline>''),
             JString ''sns.set_palette("husl")\<newline>'',
             JString (''plt.rcParams['' @ [CHR 0x27] @ ''figure.figsize'' @ [CHR 0x27]
                 @ ''] = (12, 8)\<newline>''),
             JString (''pd.set_option('' @ [CHR 0x27] @ ''display.max_columns'' @ [CHR 0x27]
                 @ '', None)\<newline>''),
             JString (''warnings.filterwarnings('' @ [CHR 0x27] @ ''ignore'' @ [CHR 0x27]
                 @ '')\<newline>''),
             JString ''\<newline>'',
             JString (''print("'' @ [CHR 0xE2, CHR 0x9C, CHR 0x85]
                 @ '' Libraries imported successfully!")\<newline>''),
             JString (''print(f"'' @ [CHR 0xF0, CHR 0x9F, CHR 0x93, CHR 0x8A]
                 @ '' Analysis environment ready")'')])],
         JDict
          [(''cell_type'', JString ''markdown''),
           (''metadata'', JDict []),
           (''source'', JList
            [JString ''## Data Loading and Initial Overview\<newline>'',
             JString ''\<newline>'',
             JString ''Loading all cleaned datasets and performing initial data quality checks.''])],
         JDict
          [(''cell_type'', JString ''code''),
           (''execution_count'', JNull),
           (''metadata'', JDict []),
           (''outputs'', JList []),
           (''source'', JList
            [JString ''# Load all cleaned datasets\<newline>'',
             JString (''print("'' @ [CHR 0xF0, CHR 0x9F, CHR 0x93, CHR 0x82]
                 @ '' Loading cleaned datasets...")\<newline>''),
             JString ''print("=" * 40)\<newline>'',
             JString ''\<newline>'',
             JString ''# Load datasets\<newline>'',
             JString (''tmdb_df = pd.read_csv('' @ [CHR 0x27]
                 @ ''cleaned_data/tmdb_movies_cleaned.csv'' @ [CHR 0x27] @ '')\<newline>''),
             JString (''budgets_df = pd.read_csv('' @ [CHR 0x27]
                 @ ''cleaned_data/movie_budgets_cleaned.csv'' @ [CHR 0x27] @ '')\<newline>''),
             JString (''bom_df = pd.read_csv('' @ [CHR 0x27]
                 @ ''cleaned_data/box_office_mojo_cleaned.csv'' @ [CHR 0x27] @ '')\<newline>''),
             JString (''rt_df = pd.read_csv('' @ [CHR 0x27]
                 @ ''cleaned_data/rotten_tomatoes_info_cleaned.csv'' @ [CHR 0x27]
                     @ '')\<newline>''),
             JString ''\<newline>'',
             JString ''# Convert date columns\<newline>'',
             JString (''tmdb_df['' @ [CHR 0x27] @ ''release_date'' @ [CHR 0x27]
                 @ ''] = pd.to_datetime(tmdb_df['' @ [CHR 0x27] @ ''release_date'' @ [CHR 0x27]
                     @ ''])\<newline>''),
             JString (''budgets_df['' @ [CHR 0x27] @ ''release_date'' @ [CHR 0x27]
                 @ ''] = pd.to_datetime(budgets_df['' @ [CHR 0x27] @ ''release_date''
                     @ [CHR 0x27] @ ''])\<newline>''),
             JString ''\<newline>'',
             JString ''datasets = {\<newline>'',
             JString (''    '' @ [CHR 0x27] @ ''TMDb Movies'' @ [CHR 0x27]
                 @ '': tmdb_df,\<newline>''),
             JString (''    '' @ [CHR 0x27] @ ''Movie Budgets'' @ [CHR 0x27]
                 @ '': budgets_df,\<newline>''),
             JString (''    '' @ [CHR 0x27] @ ''Box Office Mojo'' @ [CHR 0x27]
                 @ '': bom_df,\<newline>''),
             JString (''    '' @ [CHR 0x27] @ ''Rotten Tomatoes'' @ [CHR 0x27]
                 @ '': rt_df\<newline>''),
             JString ''}\<newline>'',
             JString ''\<newline>'',
             JString ''# Display basic info for each dataset\<newline>'',
             JString ''for name, df in datasets.items():\<newline>'',
             JString (''    print(f"'' @ [CHR 0x5C] @ ''n''
                 @ [CHR 0xF0, CHR 0x9F, CHR 0x93, CHR 0x8A] @ '' {name}:")\<newline>''),
             JString (''    print(f"   Shape: {df.shape[0]:,} rows '' @ [CHR 0xC3, CHR 0x97]
                 @ '' {df.shape[1]} columns")\<newline>''),
             JString ''    print(f"   Columns: {list(df.columns)}")\<newline>'',
             JString ''    print(f"   Memory usage: {df.memory_usage(deep=True).sum() / 1024**2:.1f} MB")\<newline>'',
             JString ''\<newline>'',
             JString (''print("'' @ [CHR 0x5C] @ ''n'' @ [CHR 0xE2, CHR 0x9C, CHR 0x85]
                 @ '' All datasets loaded successfully!")'')])]]),
       (''metadata'', JDict
        [(''kernelspec'', JDict
          [(''display_name'', JString ''Python 3''),
           (''language'', JString ''python''),
           (''name'', JString ''python3'')]),
         (''language_info'', JDict
          [(''codemirror_mode'', JDict
            [(''name'', JString ''ipython''),
             (''version'', JInt 3)]),
           (''file_extension'', JString ''.py''),
           (''name'', JString ''python''),
           (''nbconvert_exporter'', JString ''python''),
           (''pygments_lexer'', JString ''ipython3''),
           (''version'', JString ''3.8.0'')])]),
       (''nbformat'', JInt 4),
       (''nbformat_minor'', JInt 4)]\<close>


section \<open>Row counts\<close>

lemma length_dup_mask: "length (dup_mask seen rs) = length rs"
  by (induction rs arbitrary: seen) auto

lemma length_duplicated: "length (duplicated df) = nrows df"
  by (simp add: duplicated_def rows_of_def length_dup_mask)

lemma length_keep_rows_Not:
  "length msk = length xs \<Longrightarrow> length (keep_rows (map Not msk) xs) + length (filter id msk) = length xs"
proof (induction xs arbitrary: msk)
  case Nil
  then show ?case by (simp add: keep_rows_def)
next
  case (Cons x xs)
  then obtain b bs where m: "msk = b # bs" "length bs = length xs"
    by (cases msk) auto
  from Cons.IH [OF m(2)] show ?case
    using m by (cases b) (simp_all add: keep_rows_def)
qed

lemma series_len_keep:
  "length msk = series_len s \<Longrightarrow>
   series_len (series_keep (map Not msk) s) + length (filter id msk) = series_len s"
  by (cases s) (simp_all add: length_keep_rows_Not)

lemma nrows_drop_duplicates: "nrows (drop_duplicates df) + dup_count df = nrows df"
proof (cases df)
  case Nil
  then show ?thesis
    by (simp add: nrows_def drop_duplicates_def dup_count_def duplicated_def rows_of_def)
next
  case (Cons p rest)
  obtain n s where p: "p = (n, s)" by (cases p)
  have "length (duplicated df) = series_len s"
    using Cons p by (simp add: length_duplicated nrows_def)
  from series_len_keep [OF this] show ?thesis
    using Cons p by (simp add: nrows_def drop_duplicates_def dup_count_def)
qed

















section \<open>What each cleaner does to a column\<close>

lemma get_col_assign_col:
  "get_col (assign_col c f df) k = (if k = c then map_option f (get_col df k) else get_col df k)"
  by (induction df) (auto simp: get_col_def assign_col_def)

lemma columns_assign_col: "columns (assign_col c f df) = columns df"
  by (induction df) (auto simp: columns_def assign_col_def)

lemma columns_for_columns: "columns (for_columns cols f df) = columns df"
  unfolding for_columns_def
  by (induction cols arbitrary: df) (simp_all add: columns_assign_col)

lemma columns_text_step: "columns (text_step tcols excl df) = columns df"
  unfolding text_step_def
  by (induction tcols arbitrary: df) (simp_all add: columns_assign_col)

lemma columns_drop_duplicates: "columns (drop_duplicates df) = columns df"
  by (simp add: columns_def drop_duplicates_def case_prod_unfold comp_def)

lemma get_col_for_columns:
  assumes idem: "\<And>s. f (f s) = f s"
  shows "get_col (for_columns cols f df) k
         = (if k \<in> set cols then map_option f (get_col df k) else get_col df k)"
  unfolding for_columns_def
proof (induction cols arbitrary: df)
  case Nil
  show ?case by simp
next
  case (Cons c cols)
  show ?case
    by (cases "get_col df k") (auto simp: Cons.IH get_col_assign_col idem)
qed

lemma get_col_drop_duplicates:
  "get_col (drop_duplicates df) k
   = map_option (series_keep (map Not (duplicated df))) (get_col df k)"
proof -
  have "map_of (map (\<lambda>(n, s). (n, g s)) xs) k = map_option g (map_of xs k)" for g and xs :: "'a frame"
    by (induction xs) auto
  then show ?thesis by (simp add: get_col_def drop_duplicates_def)
qed

lemma py_strip_props:
  "py_strip s = [] \<or> (\<not> py_isspace (hd (py_strip s)) \<and> \<not> py_isspace (last (py_strip s)))"
proof -
  define a where "a = dropWhile py_isspace s"
  define b where "b = dropWhile py_isspace (rev a)"
  have s: "py_strip s = rev b" by (simp add: py_strip_def a_def b_def)
  show ?thesis
  proof (cases "b = []")
    case True
    then show ?thesis by (simp add: s)
  next
    case False
    have hb: "\<not> py_isspace (hd b)" using False unfolding b_def by (rule hd_dropWhile)
    have "rev a = takeWhile py_isspace (rev a) @ b" by (simp add: b_def)
    then have "last (rev a) = last b" using False by (metis last_appendR)
    moreover have "a \<noteq> []" using False by (auto simp: b_def)
    ultimately have "last b = hd a" by (simp add: last_rev)
    moreover have "\<not> py_isspace (hd a)" using \<open>a \<noteq> []\<close> unfolding a_def by (rule hd_dropWhile)
    ultimately show ?thesis using False hb by (simp add: s hd_rev last_rev)
  qed
qed

lemma py_strip_fixed:
  assumes "t = [] \<or> (\<not> py_isspace (hd t) \<and> \<not> py_isspace (last t))"
  shows "py_strip t = t"
proof (cases "t = []")
  case True
  then show ?thesis by (simp add: py_strip_def)
next
  case False
  with assms have h: "\<not> py_isspace (hd t)" and l: "\<not> py_isspace (last t)" by auto
  have 1: "dropWhile py_isspace t = t" using False h by (cases t) auto
  obtain y ys where r: "rev t = y # ys" using False by (cases "rev t") auto
  then have "y = last t" using False by (metis hd_rev list.sel(1))
  then have "dropWhile py_isspace (y # ys) = y # ys" using l by simp
  then have 2: "dropWhile py_isspace (rev t) = rev t" by (simp only: r)
  show ?thesis by (simp add: py_strip_def 1 2)
qed

lemma py_strip_idem: "py_strip (py_strip s) = py_strip s"
  by (rule py_strip_fixed) (rule py_strip_props)

lemma py_strip_nan: "py_strip ''nan'' = ''nan''"
  by (simp add: py_strip_def py_isspace_def)

lemma clean_text_cell_idem: "clean_text_cell (clean_text_cell x) = clean_text_cell x"
  by (simp add: clean_text_cell_def Let_def py_strip_idem py_strip_nan)

lemma clean_text_idem: "clean_text (clean_text s) = clean_text s"
  by (cases s) (simp_all add: clean_text_def clean_text_cell_idem)

lemma to_numeric_idem: "to_numeric L (to_numeric L s) = to_numeric L s"
  by (cases s) simp_all

lemma clean_money_idem: "clean_money L (clean_money L s) = clean_money L s"
  by (cases s) (simp_all add: clean_money_def)

lemma clean_rating_idem: "clean_rating L (clean_rating L s) = clean_rating L s"
  by (cases s) (simp_all add: clean_rating_def)

lemma try_to_datetime_idem: "try_to_datetime L (try_to_datetime L s) = try_to_datetime L s"
  by (cases s) (auto simp: try_to_datetime_def to_datetime_def)

lemma get_col_text_step:
  "get_col (text_step tcols excl df) k
   = (if k \<in> set tcols \<and> k \<notin> set excl then map_option clean_text (get_col df k) else get_col df k)"
  unfolding text_step_def
proof (induction tcols arbitrary: df)
  case Nil
  show ?case by simp
next
  case (Cons c cols)
  show ?case
    by (cases "get_col df k") (auto simp: Cons.IH get_col_assign_col clean_text_idem)
qed

lemma object_columns_iff:
  "get_col df k = Some s \<Longrightarrow> is_object s \<Longrightarrow> k \<in> set (object_columns df)"
  by (auto simp: get_col_def object_columns_def dest!: map_of_SomeD intro!: image_eqI [where x = "(k, s)"])

lemma clean_text_not_object: "\<not> is_object s \<Longrightarrow> clean_text s = s"
  by (cases s) (simp_all add: clean_text_def)

lemma get_col_text_step_object_columns:
  "get_col (text_step (object_columns df) excl df) k
   = (if k \<in> set excl then get_col df k else map_option clean_text (get_col df k))"
proof (cases "get_col df k")
  case None
  then show ?thesis by (simp add: get_col_text_step)
next
  case (Some s)
  show ?thesis
  proof (cases "is_object s")
    case True
    with Some have "k \<in> set (object_columns df)" by (rule object_columns_iff)
    then show ?thesis by (simp add: get_col_text_step)
  next
    case False
    then show ?thesis using Some by (simp add: get_col_text_step clean_text_not_object)
  qed
qed

lemma set_keyword_columns:
  "k \<in> set (keyword_columns kws df) \<longleftrightarrow> k \<in> set (columns df) \<and> any_keyword kws k"
  by (auto simp: keyword_columns_def)

lemma get_col_Some_columns: "get_col df k = Some s \<Longrightarrow> k \<in> set (columns df)"
  by (auto simp: get_col_def columns_def dest!: map_of_SomeD intro!: image_eqI [where x = "(k, s)"])


lemmas idems = clean_money_idem to_numeric_idem clean_rating_idem try_to_datetime_idem

lemmas col_simps =
  get_col_text_step_object_columns get_col_for_columns [OF clean_money_idem]
  get_col_for_columns [OF to_numeric_idem] get_col_for_columns [OF clean_rating_idem]
  get_col_for_columns [OF try_to_datetime_idem] set_keyword_columns columns_for_columns
  columns_drop_duplicates columns_text_step

lemma column_of_clean_box_office:
  assumes "get_col (if dup_count df > 0 then drop_duplicates df else df) k = Some s"
  shows "get_col (clean_box_office_frame L df) k =
     Some (let s1 = (if any_keyword [''gross'', ''revenue'', ''budget'', ''sales''] k then clean_money L s else s);
               s2 = (if any_keyword [''year''] k then to_numeric L s1 else s1)
           in if any_keyword [''gross'', ''revenue'', ''budget'', ''sales''] k then s2 else clean_text s2)"
proof -
  have k: "k \<in> set (columns (if dup_count df > 0 then drop_duplicates df else df))"
    using assms by (rule get_col_Some_columns)
  show ?thesis
    using assms k unfolding clean_box_office_frame_def Let_def
    by (simp add: col_simps)
qed

lemma column_of_clean_movie_budgets:
  assumes "get_col (drop_duplicates df) k = Some s"
  shows "get_col (clean_movie_budgets_frame L df) k =
     Some (let s1 = (if any_keyword [''budget'', ''gross'', ''revenue''] k then clean_money L s else s);
               s2 = (if any_keyword [''date'', ''release''] k then try_to_datetime L s1 else s1)
           in if any_keyword [''budget'', ''gross'', ''revenue''] k \<or> any_keyword [''date'', ''release''] k
              then s2 else clean_text s2)"
proof -
  have k: "k \<in> set (columns (drop_duplicates df))"
    using assms by (rule get_col_Some_columns)
  show ?thesis
    using assms k unfolding clean_movie_budgets_frame_def Let_def
    by (simp add: col_simps)
qed

lemma column_of_clean_tmdb:
  assumes "get_col (drop_duplicates df) k = Some s"
  shows "get_col (clean_tmdb_frame L df) k =
     Some (let s1 = (if any_keyword [''budget'', ''revenue'', ''runtime'', ''vote_average'', ''vote_count'', ''popularity''] k
                     then to_numeric L s else s);
               s2 = (if any_keyword [''date'', ''release''] k then try_to_datetime L s1 else s1)
           in if any_keyword [''date'', ''release''] k then s2 else clean_text s2)"
proof -
  have k: "k \<in> set (columns (drop_duplicates df))"
    using assms by (rule get_col_Some_columns)
  show ?thesis
    using assms k unfolding clean_tmdb_frame_def Let_def
    by (simp add: col_simps)
qed

lemma column_of_clean_rotten_tomatoes_info:
  assumes "get_col (drop_duplicates df) k = Some s"
  shows "get_col (clean_rotten_tomatoes_info_frame L df) k =
     Some (let s1 = (if any_keyword [''rating'', ''score'', ''percent''] k then clean_rating L s else s);
               s2 = (if any_keyword [''year''] k then to_numeric L s1 else s1)
           in if any_keyword [''rating'', ''score'', ''percent''] k then s2 else clean_text s2)"
proof -
  have k: "k \<in> set (columns (drop_duplicates df))"
    using assms by (rule get_col_Some_columns)
  show ?thesis
    using assms k unfolding clean_rotten_tomatoes_info_frame_def Let_def
    by (simp add: col_simps)
qed

lemma column_of_clean_rotten_tomatoes_reviews:
  assumes "get_col (drop_duplicates df) k = Some s"
  shows "get_col (clean_rotten_tomatoes_reviews_frame L df) k =
     Some (let s1 = (if any_keyword [''rating'', ''score''] k then to_numeric L s else s);
               s2 = (if any_keyword [''date''] k then try_to_datetime L s1 else s1)
           in if any_keyword [''date''] k then s2 else clean_text s2)"
proof -
  have k: "k \<in> set (columns (drop_duplicates df))"
    using assms by (rule get_col_Some_columns)
  show ?thesis
    using assms k unfolding clean_rotten_tomatoes_reviews_frame_def Let_def
    by (simp add: col_simps)
qed

lemma get_col_imdb_numeric_loop:
  "get_col (fold (\<lambda>col d. if col \<notin> set tcols then assign_col col (to_numeric L) d else d) cols df) k
   = (if k \<in> set cols \<and> k \<notin> set tcols then map_option (to_numeric L) (get_col df k) else get_col df k)"
proof (induction cols arbitrary: df)
  case Nil
  show ?case by simp
next
  case (Cons c cols)
  show ?case
    by (cases "get_col df k") (auto simp: Cons.IH get_col_assign_col to_numeric_idem)
qed

lemma column_of_clean_imdb_table_text:
  assumes "get_col (drop_duplicates df) k = Some (ObjectCol xs)"
  shows "get_col (clean_imdb_table L df) k = Some (ObjectCol (map clean_text_cell xs))"
proof -
  have "k \<in> set (object_columns (drop_duplicates df))"
    using assms by (rule object_columns_iff) simp
  then show ?thesis
    using assms unfolding clean_imdb_table_def Let_def
    by (simp add: get_col_imdb_numeric_loop col_simps clean_text_def)
qed


section \<open>The claims\<close>

lemma dup_count_le: "dup_count df \<le> nrows df"
  using nrows_drop_duplicates [of df] by linarith


lemmas parse_defs = parse_float_def c_strip_def c_isspace_def parse_unsigned_def parse_exponent_def
  scale10_def all_digits_def is_digit_def digits_val_def digit_val_def Let_def



lemmas frame_defs =
  drop_duplicates_def duplicated_def dup_count_def rows_of_def nrows_def keep_rows_def
  keyword_columns_def any_keyword_def columns_def for_columns_def assign_col_def text_step_def
  object_columns_def lower_def lower_char_def get_col_def

lemmas cell_defs =
  clean_money_def clean_rating_def clean_text_def clean_text_cell_def str_remove_def
  py_strip_def py_isspace_def

text \<open>
  C10. The text normalizer gives NaN exactly for the cells whose stringified and stripped
  form is the word \<open>nan\<close>: for the raw text \<open>nan\<close>, also padded with white space, as
  for a missing value, so the two cannot be told apart afterwards. In the box-office
  cleaner every object column with no monetary and no year keyword in its name ends as
  the cell-wise text normalization of its rows after duplicate removal.
\<close>

theorem nan_text_becomes_null:
  "(clean_text_cell x = PyNaN) = (py_strip (astype_str x) = ''nan'')
   \<and> clean_text_cell (PyStr ''nan'') = PyNaN
   \<and> clean_text_cell (PyStr ''  nan '') = clean_text_cell PyNaN
   \<and> (\<not> any_keyword [''gross'', ''revenue'', ''budget'', ''sales''] k \<and> \<not> any_keyword [''year''] k
        \<and> get_col (if dup_count df > 0 then drop_duplicates df else df) k = Some (ObjectCol xs)
      \<longrightarrow> get_col (clean_box_office_frame L df) k = Some (ObjectCol (map clean_text_cell xs)))"
proof (intro conjI impI)
  show "(clean_text_cell x = PyNaN) = (py_strip (astype_str x) = ''nan'')"
    by (simp add: clean_text_cell_def Let_def)
  show "clean_text_cell (PyStr ''nan'') = PyNaN"
    by (simp add: cell_defs)
  show "clean_text_cell (PyStr ''  nan '') = clean_text_cell PyNaN"
    by (simp add: cell_defs)
  assume "\<not> any_keyword [''gross'', ''revenue'', ''budget'', ''sales''] k \<and> \<not> any_keyword [''year''] k
        \<and> get_col (if dup_count df > 0 then drop_duplicates df else df) k = Some (ObjectCol xs)"
  then show "get_col (clean_box_office_frame L df) k = Some (ObjectCol (map clean_text_cell xs))"
    using column_of_clean_box_office [of df k "ObjectCol xs" L]
    by (simp add: Let_def clean_text_def)
qed

theorem nan_text_becomes_null_witness:
  "get_col (clean_box_office_frame example_library nan_example) ''studio''
     = Some (ObjectCol [PyNaN, PyNaN, PyStr ''BV''])"
proof -
  have 1: "\<not> any_keyword [''gross'', ''revenue'', ''budget'', ''sales''] ''studio'' \<and> \<not> any_keyword [''year''] ''studio''"
    by (simp add: any_keyword_def lower_def lower_char_def)
  have 2: "get_col (if dup_count nan_example > 0 then drop_duplicates nan_example else nan_example) ''studio''
     = Some (ObjectCol [PyStr '' nan '', PyNaN, PyStr ''BV ''])"
    by (simp add: nan_example_def frame_defs upt_rec)
  have 3: "map clean_text_cell [PyStr '' nan '', PyNaN, PyStr ''BV ''] = [PyNaN, PyNaN, PyStr ''BV'']"
    by (simp add: cell_defs)
  have "\<not> any_keyword [''gross'', ''revenue'', ''budget'', ''sales''] ''studio'' \<and> \<not> any_keyword [''year''] ''studio''
        \<and> get_col (if dup_count nan_example > 0 then drop_duplicates nan_example else nan_example) ''studio''
            = Some (ObjectCol [PyStr '' nan '', PyNaN, PyStr ''BV ''])
      \<longrightarrow> get_col (clean_box_office_frame example_library nan_example) ''studio''
            = Some (ObjectCol (map clean_text_cell [PyStr '' nan '', PyNaN, PyStr ''BV '']))"
    using nan_text_becomes_null [of PyNaN "''studio''" nan_example "[PyStr '' nan '', PyNaN, PyStr ''BV '']" example_library]
    by (elim conjE)
  with 1 2 have "get_col (clean_box_office_frame example_library nan_example) ''studio''
            = Some (ObjectCol (map clean_text_cell [PyStr '' nan '', PyNaN, PyStr ''BV '']))"
    by blast
  then show ?thesis by (simp only: 3)
qed

text \<open>
  C5. On a rating column with the cell \<open>85%\<close> the two Rotten Tomatoes cleaners differ:
  \<open>clean_rotten_tomatoes_reviews\<close> parses the cell as it stands and stores NaN, while
  \<open>clean_rotten_tomatoes_info\<close> removes the \<open>%\<close> first and stores the number 85.
\<close>

theorem rating_percent_reviews_vs_info:
  "clean_rotten_tomatoes_reviews_frame L [(''rating'', ObjectCol [PyStr ''85%''])]
     = [(''rating'', NumCol [None])]
   \<and> clean_rotten_tomatoes_info_frame L [(''rating'', ObjectCol [PyStr ''85%''])]
     = [(''rating'', NumCol [Some 85])]"
  by (simp add: clean_rotten_tomatoes_reviews_frame_def clean_rotten_tomatoes_info_frame_def
      frame_defs cell_defs parse_defs upt_rec)

text \<open>
  C6. A text-normalized cell is NaN, or a string that is not \<open>nan\<close> and has no white
  space at either end; NaN stays NaN. A \<open>None\<close> cell, which is how an SQL NULL of a
  text column arrives in the IMDb tables, is stringified to \<open>None\<close> and is not turned
  back: the cleaned table holds the four-letter text instead of a missing value.
\<close>

theorem text_normalization_cells:
  "(clean_text_cell x = PyNaN
      \<or> (clean_text_cell x = PyStr (py_strip (astype_str x))
          \<and> py_strip (astype_str x) \<noteq> ''nan''
          \<and> (py_strip (astype_str x) = []
              \<or> (\<not> py_isspace (hd (py_strip (astype_str x)))
                  \<and> \<not> py_isspace (last (py_strip (astype_str x)))))))
   \<and> clean_text_cell PyNaN = PyNaN
   \<and> clean_text_cell PyNone = PyStr ''None''
   \<and> clean_imdb_table L [(''genres'', ObjectCol [PyStr ''Drama'', PyNone])]
       = [(''genres'', ObjectCol [PyStr ''Drama'', PyStr ''None''])]"
proof (intro conjI)
  show "clean_text_cell x = PyNaN
      \<or> (clean_text_cell x = PyStr (py_strip (astype_str x))
          \<and> py_strip (astype_str x) \<noteq> ''nan''
          \<and> (py_strip (astype_str x) = []
              \<or> (\<not> py_isspace (hd (py_strip (astype_str x)))
                  \<and> \<not> py_isspace (last (py_strip (astype_str x))))))"
    using py_strip_props [of "astype_str x"] by (auto simp: clean_text_cell_def Let_def)
  show "clean_text_cell PyNaN = PyNaN" by (simp add: cell_defs)
  show "clean_text_cell PyNone = PyStr ''None''" by (simp add: cell_defs)
  show "clean_imdb_table L [(''genres'', ObjectCol [PyStr ''Drama'', PyNone])]
       = [(''genres'', ObjectCol [PyStr ''Drama'', PyStr ''None''])]"
    by (auto simp: clean_imdb_table_def frame_defs cell_defs upt_rec Let_def)
qed

lemmas example_defs = example_library_def try_to_datetime_def to_datetime_def

text \<open>
  C4, as stated, fails. In the budgets cleaner the column \<open>budget_date\<close> is in
  \<open>money_columns\<close> and in \<open>date_columns\<close>: the monetary loop makes it the numeric
  column of 5 and the date loop then makes that a date column, so two categories claim
  it and it is normalized twice. The numeric column \<open>id\<close> is claimed by no category and
  is not normalized at all.
\<close>

theorem classification_overlap_counterexample:
  "''budget_date'' \<in> set (keyword_columns [''budget'', ''gross'', ''revenue''] overlap_example)
   \<and> ''budget_date'' \<in> set (keyword_columns [''date'', ''release''] overlap_example)
   \<and> get_col (for_columns (keyword_columns [''budget'', ''gross'', ''revenue''] overlap_example)
         (clean_money example_library) overlap_example) ''budget_date'' = Some (NumCol [Some 5])
   \<and> get_col (clean_movie_budgets_frame example_library overlap_example) ''budget_date''
       = Some (DatetimeCol [Some 5])
   \<and> get_col (clean_movie_budgets_frame example_library overlap_example) ''id''
       = Some (NumCol [Some 1])"
  by (simp add: overlap_example_def clean_movie_budgets_frame_def frame_defs cell_defs parse_defs
      example_defs upt_rec)

text \<open>
  C4, amended. Which keyword categories claim a column depends on the column names
  only. The categories are applied in a fixed order, each to the columns it claims: in
  the budgets cleaner a column passes the monetary normalizer if its name has a monetary
  keyword, then the date normalizer if its name has a date keyword, and the text
  normalizer only if its name has neither; in the TMDb cleaner likewise the numeric,
  the date and the text normalizer, the last only without a date keyword.
\<close>

theorem classification_fixed_order:
  "(columns df = columns df' \<longrightarrow> keyword_columns kws df = keyword_columns kws df')
   \<and> (get_col (drop_duplicates df) k = Some s \<longrightarrow>
        get_col (clean_movie_budgets_frame L df) k =
          Some (let s1 = (if any_keyword [''budget'', ''gross'', ''revenue''] k then clean_money L s else s);
                    s2 = (if any_keyword [''date'', ''release''] k then try_to_datetime L s1 else s1)
                in if any_keyword [''budget'', ''gross'', ''revenue''] k \<or> any_keyword [''date'', ''release''] k
                   then s2 else clean_text s2))
   \<and> (get_col (drop_duplicates df) k = Some s \<longrightarrow>
        get_col (clean_tmdb_frame L df) k =
          Some (let s1 = (if any_keyword [''budget'', ''revenue'', ''runtime'', ''vote_average'', ''vote_count'', ''popularity''] k
                          then to_numeric L s else s);
                    s2 = (if any_keyword [''date'', ''release''] k then try_to_datetime L s1 else s1)
                in if any_keyword [''date'', ''release''] k then s2 else clean_text s2))"
proof (intro conjI impI)
  assume "columns df = columns df'"
  then show "keyword_columns kws df = keyword_columns kws df'"
    by (simp add: keyword_columns_def)
next
  assume "get_col (drop_duplicates df) k = Some s"
  then show "get_col (clean_movie_budgets_frame L df) k =
          Some (let s1 = (if any_keyword [''budget'', ''gross'', ''revenue''] k then clean_money L s else s);
                    s2 = (if any_keyword [''date'', ''release''] k then try_to_datetime L s1 else s1)
                in if any_keyword [''budget'', ''gross'', ''revenue''] k \<or> any_keyword [''date'', ''release''] k
                   then s2 else clean_text s2)"
    by (rule column_of_clean_movie_budgets)
next
  assume "get_col (drop_duplicates df) k = Some s"
  then show "get_col (clean_tmdb_frame L df) k =
          Some (let s1 = (if any_keyword [''budget'', ''revenue'', ''runtime'', ''vote_average'', ''vote_count'', ''popularity''] k
                          then to_numeric L s else s);
                    s2 = (if any_keyword [''date'', ''release''] k then try_to_datetime L s1 else s1)
                in if any_keyword [''date'', ''release''] k then s2 else clean_text s2)"
    by (rule column_of_clean_tmdb)
qed

theorem classification_fixed_order_witness:
  "keyword_columns [''date'', ''release''] budgets_example
     = keyword_columns [''date'', ''release''] (drop_duplicates budgets_example)
   \<and> get_col (clean_movie_budgets_frame example_library budgets_example) ''production_budget''
       = Some (NumCol [Some 425000000])
   \<and> get_col (clean_tmdb_frame example_library budgets_example) ''production_budget''
       = Some (NumCol [None])"
proof -
  have c: "columns budgets_example = columns (drop_duplicates budgets_example)"
    by (simp add: columns_drop_duplicates)
  have g: "get_col (drop_duplicates budgets_example) ''production_budget''
             = Some (ObjectCol [PyStr ''$425,000,000''])"
    by (simp add: budgets_example_def frame_defs upt_rec)
  have k: "any_keyword [''budget'', ''gross'', ''revenue''] ''production_budget''"
    "\<not> any_keyword [''date'', ''release''] ''production_budget''"
    "any_keyword [''budget'', ''revenue'', ''runtime'', ''vote_average'', ''vote_count'', ''popularity''] ''production_budget''"
    by (simp_all add: any_keyword_def lower_def lower_char_def)
  have m: "clean_money example_library (ObjectCol [PyStr ''$425,000,000'']) = NumCol [Some 425000000]"
    by (simp add: cell_defs parse_defs)
  note t = classification_fixed_order
    [of budgets_example "drop_duplicates budgets_example" "[''date'', ''release'']"
        "''production_budget''" "ObjectCol [PyStr ''$425,000,000'']" example_library]
  from t c have 1: "keyword_columns [''date'', ''release''] budgets_example
     = keyword_columns [''date'', ''release''] (drop_duplicates budgets_example)"
    by blast
  from t g have 2: "get_col (clean_movie_budgets_frame example_library budgets_example) ''production_budget''
       = Some (NumCol [Some 425000000])"
    by (simp add: k m Let_def clean_text_def del: clean_movie_budgets_frame_def)
  from t g have 3: "get_col (clean_tmdb_frame example_library budgets_example) ''production_budget''
       = Some (NumCol [None])"
    by (simp add: k parse_defs clean_text_def)
  from 1 2 3 show ?thesis by blast
qed

lemmas io_defs =
  extract_and_clean_imdb_data_def extractall_def glob_db_def ends_with_def save_csv_def
  read_csv_def run_cleaner_def

text \<open>
  C8. With a table on which the \<open>SELECT\<close> raises, \<open>extract_and_clean_imdb_data\<close>
  leaves by the exception after \<open>sqlite3.connect\<close> and before \<open>conn.close()\<close>: the
  error propagates with the connection still open. With a sound database the
  connection is closed on return.
\<close>

theorem connection_left_open_on_error:
  "fst (extract_and_clean_imdb_data example_library broken_db_world) = Inl OperationalError
   \<and> connection_open (snd (extract_and_clean_imdb_data example_library broken_db_world)) = True
   \<and> connection_open (snd (extract_and_clean_imdb_data example_library good_db_world)) = False"
  by (simp add: broken_db_world_def good_db_world_def io_defs Let_def)

lemma connection_open_table_loop:
  "table_loop L tables acc w = (r, w') \<Longrightarrow> connection_open w' = connection_open w"
proof (induction tables arbitrary: acc w)
  case Nil
  then show ?case by simp
next
  case (Cons p tables)
  obtain table_name t where p: "p = (table_name, t)" by (cases p)
  show ?case
  proof (cases t)
    case (Rows df)
    with Cons.prems p have "table_loop L tables (write_file table_name (clean_imdb_table L df) acc)
        (save_csv L (''imdb_'' @ table_name @ ''_cleaned.csv'') (clean_imdb_table L df) w) = (r, w')"
      by (simp add: Let_def)
    from Cons.IH [OF this] show ?thesis by (simp add: save_csv_def)
  next
    case Broken
    with Cons.prems p show ?thesis by simp
  qed
qed

lemma connection_open_after_raise:
  assumes "extract_and_clean_imdb_data L w = (Inl e, w')"
    and "e = OperationalError \<or> e = DatabaseError"
  shows "connection_open w'"
  using assms
  by (auto simp: extract_and_clean_imdb_data_def Let_def
      split: option.splits source_file.splits list.splits member.splits sum.splits prod.splits
      dest: connection_open_table_loop)










section \<open>Running a step again\<close>

lemma keep_rows_Nil [simp]: "keep_rows m [] = []" "keep_rows [] xs = []"
  by (simp_all add: keep_rows_def)

lemma keep_rows_Cons [simp]:
  "keep_rows (b # bs) (x # xs) = (if b then x # keep_rows bs xs else keep_rows bs xs)"
  by (simp add: keep_rows_def)

















section \<open>Running a cleaner and the pipeline again\<close>





















text \<open>
  C9. Each of the two notebook documents has \<open>nbformat\<close> 4 and \<open>nbformat_minor\<close> 4,
  holds a markdown cell and a code cell, and every one of its code cells has the empty
  list as \<open>outputs\<close> and null as \<open>execution_count\<close>.
\<close>

theorem notebooks_well_formed:
  "json_get create_cleaning_notebook ''nbformat'' = Some (JInt 4)
   \<and> json_get create_cleaning_notebook ''nbformat_minor'' = Some (JInt 4)
   \<and> list_ex (cell_has_type ''markdown'') (notebook_cells create_cleaning_notebook)
   \<and> list_ex (cell_has_type ''code'') (notebook_cells create_cleaning_notebook)
   \<and> list_all (\<lambda>c. json_get c ''outputs'' = Some (JList []) \<and> json_get c ''execution_count'' = Some JNull)
         (filter (cell_has_type ''code'') (notebook_cells create_cleaning_notebook))
   \<and> json_get create_eda_notebook ''nbformat'' = Some (JInt 4)
   \<and> json_get create_eda_notebook ''nbformat_minor'' = Some (JInt 4)
   \<and> list_ex (cell_has_type ''markdown'') (notebook_cells create_eda_notebook)
   \<and> list_ex (cell_has_type ''code'') (notebook_cells create_eda_notebook)
   \<and> list_all (\<lambda>c. json_get c ''outputs'' = Some (JList []) \<and> json_get c ''execution_count'' = Some JNull)
         (filter (cell_has_type ''code'') (notebook_cells create_eda_notebook))"
  by (simp add: create_cleaning_notebook_def create_eda_notebook_def notebook_cells_def cell_has_type_def)

lemma notebook_cell_types:
  "map (\<lambda>c. json_get c ''cell_type'') (notebook_cells create_cleaning_notebook)
     = [Some (JString ''markdown''), Some (JString ''code'')]"
  "map (\<lambda>c. json_get c ''cell_type'') (notebook_cells create_eda_notebook)
     = [Some (JString ''markdown''), Some (JString ''code''), Some (JString ''markdown''), Some (JString ''code'')]"
  by (simp_all add: create_cleaning_notebook_def create_eda_notebook_def notebook_cells_def)

end
